theory Spec2Isabelle
  imports Complex_Main "HOL-Library.AList"
begin

section \<open>The data model of eca.js\<close>

text \<open>
  The theory embeds the decision engine of \<^verbatim>\<open>src/eca.js\<close>. JavaScript numbers are
  modelled as exact rationals (pixel coordinates, thresholds and millisecond delays),
  \<^verbatim>\<open>null\<close> and \<^verbatim>\<open>undefined\<close> as \<open>None\<close> where a field holds a number or nothing.
  Objects that the source mutates in place are passed and returned explicitly: an
  \<^verbatim>\<open>Elem\<close> is addressed by its index in the \<^verbatim>\<open>elems\<close> array of its group, a group by
  its index in \<^verbatim>\<open>eca.animatable.elemGroups\<close>.
\<close>

subsection \<open>JavaScript values handed to the setters\<close>

datatype jsval = JUndefined | JNull | JBool bool | JNum rat | JStr string

text \<open>The conversion \<^verbatim>\<open>!!v\<close> (and the test of \<^verbatim>\<open>v ? 1 : -1\<close>).\<close>

fun truthy :: "jsval \<Rightarrow> bool" where
  "truthy JUndefined = False"
| "truthy JNull = False"
| "truthy (JBool b) = b"
| "truthy (JNum n) = (n \<noteq> 0)"
| "truthy (JStr s) = (s \<noteq> [])"

text \<open>An option read with \<^verbatim>\<open>isStr\<close>: a boolean or the lower-cased string.\<close>

datatype strOption = OptBool bool | OptStr string

fun optTruthy :: "strOption \<Rightarrow> bool" where
  "optTruthy (OptBool b) = b"
| "optTruthy (OptStr s) = (s \<noteq> [])"

subsection \<open>DOM state of a target element\<close>

text \<open>
  The result of \<^verbatim>\<open>getBoundingClientRect()\<close>, and the inline style of a target:
  \<open>cssText\<close> is the text last assigned as a whole, the two delay fields are the
  delay properties written since (in milliseconds).
\<close>

record Rect =
  rectTop :: rat
  rectBottom :: rat
  rectHeight :: rat

record Style =
  cssText :: string
  animationDelay :: "rat option"
  transitionDelay :: "rat option"

subsection \<open>Elem and ElemGroup\<close>

record Elem =
  elemTop :: "rat option"
  elemBottom :: "rat option"
  isVisible :: bool
  isAnimated :: bool
  threshold :: rat
  originalThreshold :: rat
  uniqueDelay :: "rat option"
  target :: nat
  originalInlineStyles :: string
  classAnimated :: bool
  style :: Style

record ElemGroup =
  elems :: "Elem list"
  groupId :: string
  delayMultiplier :: rat
  staggersFromZero :: bool
  nextStaggeredDelay :: "rat option"
  groupDelay :: rat
  originalGroupDelay :: rat
  isDelaying :: bool
  delayId :: "nat option"
  isFinishedAnimating :: bool
  numElemsAnimated :: int
  playsOnLoad :: bool
  playsReversed :: bool
  animatesAllOnFirstSight :: bool
  upToDateELem :: "nat option"
  listen :: "string option"
  listensOnce :: bool
  animatesWithTransitions :: bool
  removesAnimationWhenNotInView :: strOption
  groupIsVisible :: bool
  numElemsVisible :: int

text \<open>
  What the constructors read from the page: per element the converted threshold, the
  \<^verbatim>\<open>data-eca-delay\<close> value (\<open>None\<close> for every falsy value other than \<open>0\<close>) and the
  inline style text; per group the option values that \<^verbatim>\<open>getOption\<close> resolved.
\<close>

record ElemInit =
  initTarget :: nat
  initThreshold :: rat
  initUniqueDelay :: "rat option"
  initCssText :: string

record GroupOptions =
  ecaStagger :: rat
  ecaStaggerFromZero :: bool
  ecaGroupDelay :: rat
  ecaPlayOnLoad :: bool
  ecaReverse :: bool
  ecaAnimateAllOnFirstSight :: bool
  ecaListen :: "string option"
  ecaListenOnce :: bool
  ecaAnimateWithTransitions :: bool
  ecaRemoveAnimationWhenNotInView :: strOption

definition newElem :: "ElemInit \<Rightarrow> Elem" where
  "newElem el =
     \<lparr> elemTop = None, elemBottom = None, isVisible = False, isAnimated = False,
       threshold = initThreshold el, originalThreshold = initThreshold el,
       uniqueDelay = initUniqueDelay el, target = initTarget el,
       originalInlineStyles = initCssText el, classAnimated = False,
       style = \<lparr> cssText = initCssText el, animationDelay = None, transitionDelay = None \<rparr> \<rparr>"

definition newElemGroup :: "GroupOptions \<Rightarrow> ElemInit list \<Rightarrow> string \<Rightarrow> ElemGroup" where
  "newElemGroup opts els gid =
     \<lparr> elems = map newElem els,
       groupId = gid,
       delayMultiplier = ecaStagger opts,
       staggersFromZero = ecaStaggerFromZero opts,
       nextStaggeredDelay = None,
       groupDelay = ecaGroupDelay opts,
       originalGroupDelay = ecaGroupDelay opts,
       isDelaying = False,
       delayId = None,
       isFinishedAnimating = False,
       numElemsAnimated = 0,
       playsOnLoad = ecaPlayOnLoad opts,
       playsReversed = ecaReverse opts,
       animatesAllOnFirstSight =
         (if ecaPlayOnLoad opts then False else ecaAnimateAllOnFirstSight opts),
       upToDateELem = (case els of [] \<Rightarrow> None | _ # _ \<Rightarrow> Some 0),
       listen = ecaListen opts,
       listensOnce = ecaListenOnce opts,
       animatesWithTransitions = ecaAnimateWithTransitions opts,
       removesAnimationWhenNotInView = ecaRemoveAnimationWhenNotInView opts,
       groupIsVisible = (if ecaPlayOnLoad opts then True else False),
       numElemsVisible = 0 \<rparr>"

subsection \<open>Aggregate counters and the side-effecting setters\<close>

definition updateVisibility :: "jsval \<Rightarrow> ElemGroup \<Rightarrow> ElemGroup" where
  "updateVisibility elemIsVisible g =
     (let n = numElemsVisible g + (if truthy elemIsVisible then 1 else - 1)
      in g\<lparr> numElemsVisible := n, groupIsVisible := (if n > 0 then True else False) \<rparr>)"

definition updateAnimationStatus :: "jsval \<Rightarrow> ElemGroup \<Rightarrow> ElemGroup" where
  "updateAnimationStatus elemIsAnimated g =
     (let n = numElemsAnimated g + (if truthy elemIsAnimated then 1 else - 1)
      in g\<lparr> numElemsAnimated := n,
            isFinishedAnimating := (if n = int (length (elems g)) then True else False) \<rparr>)"

text \<open>
  The setters of \<^verbatim>\<open>Elem\<close>, for the element at index \<open>i\<close> of the group. The stored flag
  is \<^verbatim>\<open>!!v\<close>; the group is told when the raw value is not strictly equal to the stored
  boolean. An index outside the array names no element: nothing happens.
\<close>

definition set_isVisible :: "nat \<Rightarrow> jsval \<Rightarrow> ElemGroup \<Rightarrow> ElemGroup" where
  "set_isVisible i v g =
     (if i < length (elems g) then
        (let prevIsVisible = isVisible (elems g ! i);
             g' = g\<lparr> elems := (elems g)[i := (elems g ! i)\<lparr> isVisible := truthy v \<rparr>] \<rparr>
         in if v \<noteq> JBool prevIsVisible then updateVisibility v g' else g')
      else g)"

definition set_isAnimated :: "nat \<Rightarrow> jsval \<Rightarrow> ElemGroup \<Rightarrow> ElemGroup" where
  "set_isAnimated i v g =
     (if i < length (elems g) then
        (let prevIsAnimated = isAnimated (elems g ! i);
             g' = g\<lparr> elems := (elems g)[i := (elems g ! i)\<lparr> isAnimated := truthy v \<rparr>] \<rparr>
         in if v \<noteq> JBool prevIsAnimated then updateAnimationStatus v g' else g')
      else g)"

subsection \<open>Delays, animate and deAnimate\<close>

text \<open>The accessor \<^verbatim>\<open>Elem.delay\<close>; \<open>None\<close> is \<^verbatim>\<open>null\<close>.\<close>

definition delay :: "nat \<Rightarrow> ElemGroup \<Rightarrow> rat option" where
  "delay i g =
     (case uniqueDelay (elems g ! i) of
        Some d \<Rightarrow> Some d
      | None \<Rightarrow>
          (case nextStaggeredDelay g of
             Some n \<Rightarrow> if n \<noteq> 0 then Some n else None
           | None \<Rightarrow>
               if delayMultiplier g \<noteq> 0
               then Some (if staggersFromZero g then 0 else delayMultiplier g)
               else None))"

definition updateNextStaggeredDelay :: "ElemGroup \<Rightarrow> ElemGroup" where
  "updateNextStaggeredDelay g =
     (case nextStaggeredDelay g of
        Some n \<Rightarrow>
          if n \<noteq> 0 then g\<lparr> nextStaggeredDelay := Some (n + delayMultiplier g) \<rparr> else g
      | None \<Rightarrow>
          if delayMultiplier g \<noteq> 0
          then g\<lparr> nextStaggeredDelay :=
                    Some (if staggersFromZero g then delayMultiplier g
                          else 2 * delayMultiplier g) \<rparr>
          else g)"

definition writeDelay :: "bool \<Rightarrow> rat option \<Rightarrow> Style \<Rightarrow> Style" where
  "writeDelay withTransitions d st =
     (case d of
        None \<Rightarrow> st
      | Some ms \<Rightarrow>
          if withTransitions then st\<lparr> transitionDelay := Some ms \<rparr>
          else st\<lparr> animationDelay := Some ms \<rparr>)"

definition animate :: "nat \<Rightarrow> ElemGroup \<Rightarrow> ElemGroup" where
  "animate i g =
     (if i < length (elems g) then
        (let e = elems g ! i;
             d = delay i g;
             g1 = g\<lparr> elems := (elems g)[i := e\<lparr> style := writeDelay (animatesWithTransitions g) d (style e) \<rparr>] \<rparr>;
             g2 = (if uniqueDelay e = None \<or> uniqueDelay e = Some 0
                   then updateNextStaggeredDelay g1 else g1);
             g3 = g2\<lparr> elems := (elems g2)[i := (elems g2 ! i)\<lparr> classAnimated := True \<rparr>] \<rparr>
         in set_isAnimated i (JBool True) g3)
      else g)"

definition deAnimate :: "nat \<Rightarrow> ElemGroup \<Rightarrow> ElemGroup" where
  "deAnimate i g =
     (if i < length (elems g) then
        (let g1 = g\<lparr> elems := (elems g)[i := (elems g ! i)\<lparr> classAnimated := False \<rparr>] \<rparr>;
             g2 = set_isAnimated i (JBool False) g1;
             e = elems g2 ! i
         in g2\<lparr> elems := (elems g2)[i := e\<lparr> style :=
                  \<lparr> cssText = originalInlineStyles e, animationDelay = None,
                    transitionDelay = None \<rparr> \<rparr>] \<rparr>)
      else g)"

text \<open>
  The states of one group that the operations of the program reach from its
  construction: \<^verbatim>\<open>animate\<close>, \<^verbatim>\<open>deAnimate\<close> and the \<^verbatim>\<open>isAnimated\<close> setter, which the
  program only ever hands \<^verbatim>\<open>true\<close> or \<^verbatim>\<open>false\<close>.
\<close>

inductive reachable :: "ElemGroup \<Rightarrow> bool" where
  constructed: "reachable (newElemGroup opts els gid)"
| by_animate: "reachable g \<Longrightarrow> i < length (elems g) \<Longrightarrow> reachable (animate i g)"
| by_deAnimate: "reachable g \<Longrightarrow> i < length (elems g) \<Longrightarrow> reachable (deAnimate i g)"
| by_setter: "reachable g \<Longrightarrow> i < length (elems g) \<Longrightarrow> reachable (set_isAnimated i (JBool b) g)"

definition countAnimated :: "ElemGroup \<Rightarrow> int" where
  "countAnimated g = int (length (filter isAnimated (elems g)))"

subsection \<open>A concrete group, and the aggregate invariant\<close>

definition exampleOptions :: GroupOptions where
  "exampleOptions =
     \<lparr> ecaStagger = 100, ecaStaggerFromZero = False, ecaGroupDelay = 0,
       ecaPlayOnLoad = False, ecaReverse = False, ecaAnimateAllOnFirstSight = False,
       ecaListen = None, ecaListenOnce = False, ecaAnimateWithTransitions = False,
       ecaRemoveAnimationWhenNotInView = OptBool False \<rparr>"

definition exampleElemInit :: "nat \<Rightarrow> ElemInit" where
  "exampleElemInit t =
     \<lparr> initTarget = t, initThreshold = 0, initUniqueDelay = None, initCssText = [] \<rparr>"

definition aggInv :: "ElemGroup \<Rightarrow> bool" where
  "aggInv g \<longleftrightarrow>
     numElemsAnimated g = countAnimated g \<and>
     (isFinishedAnimating g \<longleftrightarrow> numElemsAnimated g = int (length (elems g)) \<and> elems g \<noteq> [])"

subsection \<open>Visibility in the polling strategy\<close>

text \<open>
  The local \<^verbatim>\<open>pixelThreshold\<close> of \<^verbatim>\<open>calculateVisibility\<close>, from the height just read,
  the element as it is before the new flag is stored, and the group's
  \<^verbatim>\<open>animatesWithTransitions\<close>.
\<close>

definition pixelThreshold :: "rat \<Rightarrow> Elem \<Rightarrow> bool \<Rightarrow> rat" where
  "pixelThreshold height e withTransitions =
     (let p = height * threshold e - (if threshold e = 1 then 1 else 0)
      in if isVisible e \<and> \<not> withTransitions then 0 else p)"

definition calculateVisibility :: "rat \<Rightarrow> Rect \<Rightarrow> nat \<Rightarrow> ElemGroup \<Rightarrow> ElemGroup" where
  "calculateVisibility windowHeight r i g =
     (if i < length (elems g) then
        (let g1 = g\<lparr> elems := (elems g)[i := (elems g ! i)
                       \<lparr> elemTop := Some (rectTop r), elemBottom := Some (rectBottom r) \<rparr>] \<rparr>;
             p = pixelThreshold (rectHeight r) (elems g1 ! i) (animatesWithTransitions g1)
         in set_isVisible i
              (JBool (rectTop r + p < windowHeight \<and> rectBottom r - p > 0)) g1)
      else g)"

subsection \<open>Threshold conversion and correction\<close>

definition nextSmallestThreshold :: "rat list" where
  "nextSmallestThreshold = [0, 1 / 4, 1 / 2, 3 / 4, 1]"

text \<open>
  The test \<^verbatim>\<open>winPercentOfEl < t\<close> with \<^verbatim>\<open>winPercentOfEl = windowHeight/elemHeight\<close>. The
  branch is entered with \<^verbatim>\<open>elemHeight > windowHeight\<close> only, so a zero height means a
  negative window height and the quotient \<^verbatim>\<open>-Infinity\<close>, below every \<open>t\<close>.
\<close>

definition winPercentBelow :: "rat \<Rightarrow> rat \<Rightarrow> rat \<Rightarrow> bool" where
  "winPercentBelow windowHeight elemHeight t =
     (if elemHeight = 0 then True else windowHeight / elemHeight < t)"

text \<open>
  The loop \<^verbatim>\<open>while (winPercentOfEl < nextSmallestThreshold[i]) i--\<close>, started at \<open>i\<close>.
  \<open>None\<close> is the index \<open>-1\<close>: the array read there is \<^verbatim>\<open>undefined\<close>, the comparison
  false, and the loop stops.
\<close>

fun thresholdIndex :: "(rat \<Rightarrow> bool) \<Rightarrow> nat \<Rightarrow> nat option" where
  "thresholdIndex below 0 =
     (if below (nextSmallestThreshold ! 0) then None else Some 0)"
| "thresholdIndex below (Suc i) =
     (if below (nextSmallestThreshold ! Suc i) then thresholdIndex below i else Some (Suc i))"

definition correctThreshold :: "rat \<Rightarrow> rat \<Rightarrow> Elem \<Rightarrow> Elem" where
  "correctThreshold windowHeight elemHeight e =
     (if 0 = originalThreshold e then e
      else if elemHeight > windowHeight then
        (case thresholdIndex (winPercentBelow windowHeight elemHeight)
                (length nextSmallestThreshold - 1) of
           Some i \<Rightarrow>
             e\<lparr> threshold := (if nextSmallestThreshold ! i \<le> originalThreshold e
                               then nextSmallestThreshold ! i else originalThreshold e) \<rparr>
         | None \<Rightarrow> e\<lparr> threshold := originalThreshold e \<rparr>)
      else e\<lparr> threshold := originalThreshold e \<rparr>)"



definition rectOf :: "rat \<Rightarrow> rat \<Rightarrow> Rect" where
  "rectOf t b = \<lparr> rectTop = t, rectBottom = b, rectHeight = b - t \<rparr>"

subsection \<open>The per-member decision\<close>

text \<open>
  A comparison of a coordinate that may still be \<^verbatim>\<open>null\<close> (no read yet): \<^verbatim>\<open>null\<close>
  converts to \<open>0\<close>.
\<close>

definition coord :: "rat option \<Rightarrow> rat" where
  "coord c = (case c of None \<Rightarrow> 0 | Some x \<Rightarrow> x)"

text \<open>
  \<open>upToDateELem\<close> is the index in \<open>elems\<close> of the element the group refers to. The
  constructor sets it to the first element, so it is undefined in a group without
  members only, where no member exists to evaluate the accessor below; the read of a
  coordinate through an undefined reference is given the value \<open>None\<close> here.
\<close>

definition upToDate :: "ElemGroup \<Rightarrow> Elem option" where
  "upToDate g =
     (case upToDateELem g of
        None \<Rightarrow> None
      | Some j \<Rightarrow> if j < length (elems g) then Some (elems g ! j) else None)"

definition isReadyToDeanimate :: "rat \<Rightarrow> nat \<Rightarrow> ElemGroup \<Rightarrow> bool" where
  "isReadyToDeanimate windowHeight i g =
     (let e = elems g ! i in
      if \<not> optTruthy (removesAnimationWhenNotInView g) \<or> playsOnLoad g \<or> \<not> isAnimated e
      then False
      else if removesAnimationWhenNotInView g = OptBool True then
        (if animatesAllOnFirstSight g then \<not> groupIsVisible g else \<not> isVisible e)
      else if removesAnimationWhenNotInView g = OptStr ''below'' then
        (if animatesAllOnFirstSight g
         then \<not> groupIsVisible g \<and>
              (case upToDate g of None \<Rightarrow> False
               | Some u \<Rightarrow> coord (elemBottom u) > windowHeight)
         else \<not> isVisible e \<and> coord (elemBottom e) > windowHeight)
      else if removesAnimationWhenNotInView g = OptStr ''above'' then
        (if animatesAllOnFirstSight g
         then \<not> groupIsVisible g \<and>
              (case upToDate g of None \<Rightarrow> False | Some u \<Rightarrow> coord (elemTop u) < 0)
         else \<not> isVisible e \<and> coord (elemTop e) < 0)
      else False)"

definition isReadyToAnimate :: "nat \<Rightarrow> ElemGroup \<Rightarrow> bool" where
  "isReadyToAnimate i g =
     (let e = elems g ! i in
      if isAnimated e \<or> isDelaying g then False
      else isVisible e \<or> playsOnLoad g \<or> (animatesAllOnFirstSight g \<and> groupIsVisible g))"

definition updateAnimations :: "rat \<Rightarrow> nat \<Rightarrow> ElemGroup \<Rightarrow> ElemGroup" where
  "updateAnimations windowHeight i g =
     (if isReadyToAnimate i g then animate i g
      else if isReadyToDeanimate windowHeight i g then deAnimate i g
      else g)"

text \<open>\<^verbatim>\<open>elems.forEach(updateAnimations)\<close>: the indices of the array in order.\<close>

definition updateAnimationsAll :: "rat \<Rightarrow> ElemGroup \<Rightarrow> ElemGroup" where
  "updateAnimationsAll windowHeight g =
     fold (updateAnimations windowHeight) [0 ..< length (elems g)] g"

definition updateMutableProps :: "ElemGroup \<Rightarrow> ElemGroup" where
  "updateMutableProps g =
     (let g1 = g\<lparr> nextStaggeredDelay := None \<rparr>
      in if 0 = numElemsAnimated g1
         then g1\<lparr> groupDelay := (if groupDelay g1 \<noteq> 0 then groupDelay g1
                                   else originalGroupDelay g1) \<rparr>
         else g1)"







subsection \<open>Event wiring\<close>

text \<open>
  A parsed listener object is the list of its own enumerable properties in enumeration
  order; \<^verbatim>\<open>stylesToChange\<close> is built by assignment, which replaces the value of a key
  that is present and appends a new key.
\<close>

type_synonym jsobject = "(string \<times> string) list"

definition hasOwnProperty :: "jsobject \<Rightarrow> string \<Rightarrow> bool" where
  "hasOwnProperty obj k = (k \<in> set (map fst obj))"

text \<open>
  One round of the \<^verbatim>\<open>for ... in\<close> loop of \<^verbatim>\<open>getEventStyles\<close>. The local \<^verbatim>\<open>event\<close> is the
  empty string when the second and third conditions test it.
\<close>

definition eventStyleStep :: "jsobject \<Rightarrow> ElemGroup \<Rightarrow> string \<times> string \<Rightarrow> jsobject \<Rightarrow> jsobject" where
  "eventStyleStep listenerStyles elemGroup kv stylesToChange =
     (let eventAbbrv = fst kv; event = [] in
      if hasOwnProperty listenerStyles eventAbbrv \<and> eventAbbrv \<noteq> ''run''
           \<and> eventAbbrv \<noteq> ''iteration''
      then AList.update
             ((if animatesWithTransitions elemGroup then ''transition'' else ''animation'')
                @ eventAbbrv) (snd kv) stylesToChange
      else if hasOwnProperty listenerStyles event \<and> event = ''run''
      then AList.update ''transitionrun'' (snd kv) stylesToChange
      else if hasOwnProperty listenerStyles event
      then AList.update ''animationiteration'' (snd kv) stylesToChange
      else stylesToChange)"

definition getEventStyles :: "jsobject \<Rightarrow> ElemGroup \<Rightarrow> jsobject" where
  "getEventStyles listenerStyles elemGroup =
     fold (eventStyleStep listenerStyles elemGroup) listenerStyles []"

text \<open>The translation the documentation of \<^verbatim>\<open>data-eca-listen\<close> describes for one key.\<close>

definition documentedEventName :: "bool \<Rightarrow> string \<Rightarrow> string" where
  "documentedEventName withTransitions eventAbbrv =
     (if eventAbbrv = ''run'' then ''transitionrun''
      else if eventAbbrv = ''iteration'' then ''animationiteration''
      else (if withTransitions then ''transition'' else ''animation'') @ eventAbbrv)"

subsection \<open>The page state\<close>

record Timer =
  timerId :: nat
  timeout :: rat
  timerGroup :: nat

text \<open>
  The closures handed to \<^verbatim>\<open>requestAnimationFrame\<close>: the write phase of a cycle, which
  runs the update callback and clears \<^verbatim>\<open>updating\<close>, and the deferred \<^verbatim>\<open>updateOne\<close> of a
  group whose delay timer fired. An update callback is \<^verbatim>\<open>updateAll\<close> or \<^verbatim>\<open>updateEntries\<close>
  on the group subsets its read phase collected (group index, element indices).
\<close>

datatype UpdateCb = CbUpdateAll | CbUpdateEntries "(nat \<times> nat list) list"

datatype RafCb = RafCycle UpdateCb | RafUpdateOne nat

datatype Diag = DiagError | DiagText string

record Listener =
  onTarget :: nat
  onEvent :: string
  onStyles :: string
  onOnce :: bool

record World =
  windowHeight :: rat
  prevWindowHeight :: rat
  updating :: bool
  useScroll :: bool
  groupDelayIds :: "string \<rightharpoonup> nat option"
  elemGroups :: "ElemGroup list"
  rects :: "nat \<Rightarrow> Rect"
  timers :: "Timer list"
  nextTimerId :: nat
  rafQueue :: "RafCb list"
  console :: "Diag list"
  listeners :: "Listener list"

definition setGroup :: "nat \<Rightarrow> ElemGroup \<Rightarrow> World \<Rightarrow> World" where
  "setGroup gi g w = w\<lparr> elemGroups := (elemGroups w)[gi := g] \<rparr>"

subsection \<open>Listeners\<close>

text \<open>
  \<^verbatim>\<open>addListeners\<close>, with \<^verbatim>\<open>JSON.parse\<close> as a parameter: \<open>None\<close> is the thrown
  \<^verbatim>\<open>SyntaxError\<close>, which the \<^verbatim>\<open>catch\<close> block reports on the console.
\<close>

definition listenAll :: "ElemGroup \<Rightarrow> string \<times> string \<Rightarrow> Listener list" where
  "listenAll elemGroup es =
     map (\<lambda>e. \<lparr> onTarget = target e, onEvent = fst es, onStyles = snd es,
                 onOnce = listensOnce elemGroup \<rparr>) (elems elemGroup)"

definition addListeners :: "(string \<Rightarrow> jsobject option) \<Rightarrow> ElemGroup \<Rightarrow> World \<Rightarrow> World" where
  "addListeners parse elemGroup w =
     (case listen elemGroup of
        None \<Rightarrow> w
      | Some s \<Rightarrow>
          if s = [] then w
          else (case parse s of
                  None \<Rightarrow>
                    w\<lparr> console := console w @
                         [DiagError,
                          DiagText (''Please make sure the data-eca-listen object on '' @
                                    groupId elemGroup @ '' is properly formatted JSON.'')] \<rparr>
                | Some listenerStyles \<Rightarrow>
                    w\<lparr> listeners := listeners w @
                         concat (map (listenAll elemGroup)
                                   (getEventStyles listenerStyles elemGroup)) \<rparr>))"

subsection \<open>Bootstrap\<close>

text \<open>
  A first element of a group as \<^verbatim>\<open>readyElementsForAnimation\<close> finds it: its class list,
  whether \<^verbatim>\<open>data-eca-animate-chars\<close> is set, the group options resolved from it, and
  the elements its group collects (for a text group after the text was wrapped and the
  per-character delays were stored).
\<close>

record FirstElem =
  classList :: "string list"
  ecaAnimateChars :: bool
  groupOptions :: GroupOptions
  groupMembers :: "ElemInit list"

fun decimal :: "nat \<Rightarrow> string" where
  "decimal n =
     (if n < 10 then [''0123456789'' ! n]
      else decimal (n div 10) @ [''0123456789'' ! (n mod 10)])"

text \<open>
  \<^verbatim>\<open>classList[0] + (isText ? "-letters" : "")\<close>; a missing class is \<^verbatim>\<open>undefined\<close> and
  concatenates as the text \<open>undefined\<close>.
\<close>

definition leadingName :: "FirstElem \<Rightarrow> string" where
  "leadingName el =
     (case classList el of [] \<Rightarrow> ''undefined'' | c # _ \<Rightarrow> c)
       @ (if ecaAnimateChars el then ''-letters'' else [])"

text \<open>
  \<^verbatim>\<open>groupsOfAnimatableElems\<close> is a plain object: reading a key finds the properties
  stored so far and those inherited from \<^verbatim>\<open>Object.prototype\<close>.
\<close>

definition objectPrototypeKeys :: "string list" where
  "objectPrototypeKeys =
     [''constructor'', ''__defineGetter__'', ''__defineSetter__'', ''hasOwnProperty'',
      ''__lookupGetter__'', ''__lookupSetter__'', ''isPrototypeOf'',
      ''propertyIsEnumerable'', ''toString'', ''valueOf'', ''__proto__'',
      ''toLocaleString'']"

definition nextGroupId :: "string list \<Rightarrow> nat \<Rightarrow> FirstElem \<Rightarrow> string" where
  "nextGroupId known i el =
     (if leadingName el \<notin> set known \<and> leadingName el \<notin> set objectPrototypeKeys
      then leadingName el
      else leadingName el @ decimal i)"

text \<open>The ids the loop hands out, in the order of the first elements, from index \<open>i\<close>.\<close>

fun groupIds :: "string list \<Rightarrow> nat \<Rightarrow> FirstElem list \<Rightarrow> string list" where
  "groupIds known i [] = []"
| "groupIds known i (el # els) =
     nextGroupId known i el # groupIds (nextGroupId known i el # known) (Suc i) els"

text \<open>
  \<^verbatim>\<open>elems.reverse()\<close> for a reversed group; \<open>upToDateELem\<close> keeps referring to the element
  that was first.
\<close>

definition reverseElems :: "ElemGroup \<Rightarrow> ElemGroup" where
  "reverseElems g =
     g\<lparr> elems := rev (elems g),
        upToDateELem := (case upToDateELem g of None \<Rightarrow> None
                         | Some j \<Rightarrow> Some (length (elems g) - 1 - j)) \<rparr>"

definition readyOne :: "(string \<Rightarrow> jsobject option) \<Rightarrow> string \<Rightarrow> FirstElem \<Rightarrow> World \<Rightarrow> World" where
  "readyOne parse gid el w =
     (let g = newElemGroup (groupOptions el) (groupMembers el) gid;
          w1 = addListeners parse g w;
          g1 = (if playsReversed g then reverseElems g else g)
      in w1\<lparr> elemGroups := elemGroups w1 @ [g1] \<rparr>)"

fun readyLoop :: "(string \<Rightarrow> jsobject option) \<Rightarrow> string list \<Rightarrow> nat \<Rightarrow> FirstElem list \<Rightarrow> World \<Rightarrow> World" where
  "readyLoop parse known i [] w = w"
| "readyLoop parse known i (el # els) w =
     readyLoop parse (nextGroupId known i el # known) (Suc i) els
       (readyOne parse (nextGroupId known i el) el w)"

definition readyElementsForAnimation :: "(string \<Rightarrow> jsobject option) \<Rightarrow> FirstElem list \<Rightarrow> World \<Rightarrow> World" where
  "readyElementsForAnimation parse firstElemsOfGroups w =
     readyLoop parse [] 0 firstElemsOfGroups w"

text \<open>
  Concrete pages: a world before bootstrap, with every target at the rectangle from
  \<open>0\<close> to \<open>50\<close> and a viewport of height \<open>500\<close>, and a first element of a plain group
  with one member, named by its leading class.
\<close>

definition emptyWorld :: World where
  "emptyWorld =
     \<lparr> windowHeight = 500, prevWindowHeight = 500, updating = False, useScroll = True,
       groupDelayIds = Map.empty, elemGroups = [], rects = (\<lambda>_. rectOf 0 50),
       timers = [], nextTimerId = 1, rafQueue = [], console = [], listeners = [] \<rparr>"

definition firstElemOf :: "string \<Rightarrow> FirstElem" where
  "firstElemOf c =
     \<lparr> classList = [c], ecaAnimateChars = False, groupOptions = exampleOptions,
       groupMembers = [exampleElemInit 7] \<rparr>"

subsection \<open>Read and update of one cycle\<close>

text \<open>\<^verbatim>\<open>readOne\<close>: \<^verbatim>\<open>calculateVisibility\<close> for every element of the group, in order.\<close>

definition readOneGroup :: "World \<Rightarrow> ElemGroup \<Rightarrow> ElemGroup" where
  "readOneGroup w g =
     fold (\<lambda>i g'. calculateVisibility (windowHeight w) (rects w (target (elems g' ! i))) i g')
       [0 ..< length (elems g)] g"

definition readOne :: "nat \<Rightarrow> World \<Rightarrow> World" where
  "readOne gi w =
     (if gi < length (elemGroups w) then setGroup gi (readOneGroup w (elemGroups w ! gi)) w
      else w)"

text \<open>The test both \<^verbatim>\<open>readAll\<close> and \<^verbatim>\<open>updateAll\<close> apply to a group.\<close>

definition eligible :: "ElemGroup \<Rightarrow> bool" where
  "eligible g \<longleftrightarrow>
     (optTruthy (removesAnimationWhenNotInView g) \<or> \<not> isFinishedAnimating g) \<and> \<not> isDelaying g"

definition readAll :: "World \<Rightarrow> World" where
  "readAll w =
     fold (\<lambda>gi w'. if eligible (elemGroups w' ! gi) then readOne gi w' else w')
       [0 ..< length (elemGroups w)] w"

text \<open>
  \<^verbatim>\<open>delayGroup\<close>: the timer closure is the entry added to \<open>timers\<close>; it runs in
  \<open>fireTimer\<close> below.
\<close>

definition delayGroup :: "nat \<Rightarrow> World \<Rightarrow> World" where
  "delayGroup gi w =
     (let g = elemGroups w ! gi;
          tid = nextTimerId w;
          g' = g\<lparr> isDelaying := True, originalGroupDelay := groupDelay g, delayId := Some tid \<rparr>
      in w\<lparr> elemGroups := (elemGroups w)[gi := g'],
            timers := timers w @ [\<lparr> timerId = tid, timeout = groupDelay g, timerGroup = gi \<rparr>],
            nextTimerId := Suc tid,
            groupDelayIds := (groupDelayIds w)(groupId g \<mapsto> Some tid) \<rparr>)"

definition updateOne :: "nat \<Rightarrow> World \<Rightarrow> World" where
  "updateOne gi w =
     (if gi < length (elemGroups w) then
        (let g = elemGroups w ! gi in
         if groupDelay g > 0 \<and> groupIsVisible g then delayGroup gi w
         else setGroup gi (updateMutableProps (updateAnimationsAll (windowHeight w) g)) w)
      else w)"

definition updateAll :: "World \<Rightarrow> World" where
  "updateAll w =
     fold (\<lambda>gi w'. if eligible (elemGroups w' ! gi) then updateOne gi w' else w')
       [0 ..< length (elemGroups w)] w"

text \<open>
  \<^verbatim>\<open>updateEntries\<close> for one group subset; the entries are elements of the group, given by
  their indices.
\<close>

definition updateEntry :: "nat \<times> nat list \<Rightarrow> World \<Rightarrow> World" where
  "updateEntry ge w =
     (let gi = fst ge in
      if gi < length (elemGroups w) then
        (let g = elemGroups w ! gi in
         if isDelaying g then w
         else if groupDelay g > 0 \<and> groupIsVisible g then delayGroup gi w
         else setGroup gi
                (updateMutableProps
                   (if animatesAllOnFirstSight g then updateAnimationsAll (windowHeight w) g
                    else fold (updateAnimations (windowHeight w))
                           (filter (\<lambda>i. i < length (elems g)) (snd ge)) g)) w)
      else w)"

definition updateEntries :: "(nat \<times> nat list) list \<Rightarrow> World \<Rightarrow> World" where
  "updateEntries groupSubsets w = fold updateEntry groupSubsets w"

subsection \<open>The scheduler\<close>

definition runUpdateCb :: "UpdateCb \<Rightarrow> World \<Rightarrow> World" where
  "runUpdateCb cb w =
     (case cb of
        CbUpdateAll \<Rightarrow> updateAll w
      | CbUpdateEntries groupSubsets \<Rightarrow>
          if groupSubsets \<noteq> [] then updateEntries groupSubsets w else w)"




text \<open>
  The closure that \<^verbatim>\<open>delayGroup\<close> handed to \<^verbatim>\<open>setTimeout\<close> runs for the pending timer
  \<open>t\<close>; \<open>fireTimer\<close> takes the timer with a given id out of the pending ones first.
\<close>

definition timerCallback :: "Timer \<Rightarrow> World \<Rightarrow> World" where
  "timerCallback t w =
     (let gi = timerGroup t;
          g = elemGroups w ! gi;
          w1 = w\<lparr> groupDelayIds := (groupDelayIds w)(groupId g \<mapsto> None) \<rparr>;
          w2 = setGroup gi (g\<lparr> groupDelay := 0, isDelaying := False \<rparr>) w1;
          w3 = (if useScroll w2 then readOne gi w2 else w2)
      in w3\<lparr> rafQueue := rafQueue w3 @ [RafUpdateOne gi] \<rparr>)"


subsection \<open>Events of the polling strategy\<close>


definition correctAll :: "World \<Rightarrow> World" where
  "correctAll w =
     w\<lparr> elemGroups :=
          map (\<lambda>g. g\<lparr> elems := map (\<lambda>e. correctThreshold (windowHeight w)
                                          (rectHeight (rects w (target e))) e) (elems g) \<rparr>)
            (elemGroups w) \<rparr>"













subsection \<open>The scheduling view of a world\<close>

text \<open>
  What decides whether a group's members may be handled: per group the delaying flag
  and the group delay, the pending timers, the animation-frame queue and the next timer
  id. The transitions below are the effects of the scheduler's operations on this view.
\<close>

record View =
  vKeys :: "(bool \<times> rat) list"
  vTimers :: "Timer list"
  vQueue :: "RafCb list"
  vNext :: nat

definition keyOf :: "ElemGroup \<Rightarrow> bool \<times> rat" where
  "keyOf g = (isDelaying g, groupDelay g)"

definition view :: "World \<Rightarrow> View" where
  "view w =
     \<lparr> vKeys = map keyOf (elemGroups w), vTimers = timers w, vQueue = rafQueue w,
       vNext = nextTimerId w \<rparr>"













section \<open>Properties\<close>

lemma length_filter_update:
  assumes "i < length xs"
  shows "int (length (filter P (xs[i := x]))) =
         int (length (filter P xs)) - (if P (xs ! i) then 1 else 0) + (if P x then 1 else 0)"
  using assms
proof (induction xs arbitrary: i)
  case Nil
  then show ?case by simp
next
  case (Cons a xs)
  show ?case
  proof (cases i)
    case 0
    then show ?thesis by simp
  next
    case (Suc n)
    with Cons.prems have "n < length xs" by simp
    from Cons.IH [OF this] Suc show ?thesis by (simp split: if_splits)
  qed
qed

lemma set_isAnimated_bool:
  assumes "i < length (elems g)"
  shows "set_isAnimated i (JBool b) g =
     (if b = isAnimated (elems g ! i) then g
      else updateAnimationStatus (JBool b)
             (g\<lparr> elems := (elems g)[i := (elems g ! i)\<lparr> isAnimated := b \<rparr>] \<rparr>))"
  using assms by (auto simp: set_isAnimated_def Let_def list_update_same_conv)

lemma aggInv_set_isAnimated:
  assumes "aggInv g" "i < length (elems g)"
  shows "aggInv (set_isAnimated i (JBool b) g)"
  using assms
  by (auto simp: set_isAnimated_bool aggInv_def countAnimated_def updateAnimationStatus_def
      Let_def length_filter_update)

lemma aggInv_cong:
  assumes "map isAnimated (elems g') = map isAnimated (elems g)"
    and "numElemsAnimated g' = numElemsAnimated g"
    and "isFinishedAnimating g' = isFinishedAnimating g"
  shows "aggInv g' = aggInv g"
proof -
  have f: "\<And>xs. length (filter isAnimated xs) = length (filter id (map isAnimated xs))"
    by (simp add: filter_map comp_def)
  have l: "length (elems g') = length (elems g)"
    using arg_cong [OF assms(1), of length] by simp
  have c: "countAnimated g' = countAnimated g"
    unfolding countAnimated_def f assms(1) ..
  have e: "(elems g' = []) = (elems g = [])"
    by (simp only: length_0_conv [symmetric] l)
  show ?thesis unfolding aggInv_def assms(2,3) c l e ..
qed

lemma map_isAnimated_update:
  assumes "i < length xs" "isAnimated e = isAnimated (xs ! i)"
  shows "map isAnimated (xs[i := e]) = map isAnimated xs"
  using assms by (simp add: map_update list_update_same_conv)

lemma updateNextStaggeredDelay_agg:
  "elems (updateNextStaggeredDelay g) = elems g"
  "numElemsAnimated (updateNextStaggeredDelay g) = numElemsAnimated g"
  "isFinishedAnimating (updateNextStaggeredDelay g) = isFinishedAnimating g"
  by (simp_all add: updateNextStaggeredDelay_def split: option.splits)

lemma aggInv_animate:
  assumes "aggInv g" "i < length (elems g)"
  shows "aggInv (animate i g)"
proof -
  define g1 where "g1 = g\<lparr> elems := (elems g)[i := (elems g ! i)\<lparr> style :=
      writeDelay (animatesWithTransitions g) (delay i g) (style (elems g ! i)) \<rparr>] \<rparr>"
  define g2 where "g2 = (if uniqueDelay (elems g ! i) = None \<or> uniqueDelay (elems g ! i) = Some 0
                   then updateNextStaggeredDelay g1 else g1)"
  define g3 where "g3 = g2\<lparr> elems := (elems g2)[i := (elems g2 ! i)\<lparr> classAnimated := True \<rparr>] \<rparr>"
  have a: "animate i g = set_isAnimated i (JBool True) g3"
    using assms(2) by (simp add: animate_def Let_def g1_def g2_def g3_def)
  have "aggInv g1 = aggInv g"
    using assms(2) by (intro aggInv_cong) (simp_all add: g1_def map_isAnimated_update)
  moreover have l1: "length (elems g1) = length (elems g)" by (simp add: g1_def)
  moreover have "aggInv g2 = aggInv g1"
    by (intro aggInv_cong) (simp_all add: g2_def updateNextStaggeredDelay_agg)
  moreover have l2: "length (elems g2) = length (elems g1)"
    by (simp add: g2_def updateNextStaggeredDelay_agg)
  moreover have "aggInv g3 = aggInv g2"
    using assms(2) l1 l2 by (intro aggInv_cong) (simp_all add: g3_def map_isAnimated_update)
  moreover have "length (elems g3) = length (elems g2)" by (simp add: g3_def)
  ultimately have "aggInv g3" "i < length (elems g3)" using assms by simp_all
  then show ?thesis unfolding a by (rule aggInv_set_isAnimated)
qed

lemma set_isAnimated_length: "length (elems (set_isAnimated i v g)) = length (elems g)"
  by (simp add: set_isAnimated_def Let_def updateAnimationStatus_def)

lemma aggInv_deAnimate:
  assumes "aggInv g" "i < length (elems g)"
  shows "aggInv (deAnimate i g)"
proof -
  define g1 where "g1 = g\<lparr> elems := (elems g)[i := (elems g ! i)\<lparr> classAnimated := False \<rparr>] \<rparr>"
  define g2 where "g2 = set_isAnimated i (JBool False) g1"
  define g3 where "g3 = g2\<lparr> elems := (elems g2)[i := (elems g2 ! i)\<lparr> style :=
                  \<lparr> cssText = originalInlineStyles (elems g2 ! i), animationDelay = None,
                    transitionDelay = None \<rparr> \<rparr>] \<rparr>"
  have a: "deAnimate i g = g3"
    using assms(2) by (simp add: deAnimate_def Let_def g1_def g2_def g3_def)
  have "aggInv g1 = aggInv g"
    using assms(2) by (intro aggInv_cong) (simp_all add: g1_def map_isAnimated_update)
  moreover have l1: "length (elems g1) = length (elems g)" by (simp add: g1_def)
  ultimately have "aggInv g2"
    using assms unfolding g2_def by (intro aggInv_set_isAnimated) simp_all
  moreover have l2: "length (elems g2) = length (elems g1)"
    by (simp add: g2_def set_isAnimated_length)
  moreover have "aggInv g3 = aggInv g2"
    using assms(2) l1 l2 by (intro aggInv_cong) (simp_all add: g3_def map_isAnimated_update)
  ultimately show ?thesis unfolding a by simp
qed

lemma aggInv_new: "aggInv (newElemGroup opts els gid)"
  by (simp add: aggInv_def newElemGroup_def countAnimated_def newElem_def filter_map comp_def)

lemma reachable_aggInv: "reachable g \<Longrightarrow> aggInv g"
  by (induction rule: reachable.induct)
     (simp_all add: aggInv_new aggInv_animate aggInv_deAnimate aggInv_set_isAnimated)

text \<open>
  C1 (amended). At every state of a group reachable through \<^verbatim>\<open>animate\<close>,
  \<^verbatim>\<open>deAnimate\<close> and the \<^verbatim>\<open>isAnimated\<close> setter, \<open>numElemsAnimated\<close> equals the
  number of members whose \<open>isAnimated\<close> flag is true, and, for a group that has at least
  one member, \<open>isFinishedAnimating\<close> is true if and only if \<open>numElemsAnimated\<close> equals
  the member count.
\<close>

theorem aggregate_consistency:
  assumes "reachable g"
  shows "numElemsAnimated g = countAnimated g \<and>
         (elems g \<noteq> [] \<longrightarrow>
            (isFinishedAnimating g \<longleftrightarrow> numElemsAnimated g = int (length (elems g))))"
  using reachable_aggInv [OF assms] by (auto simp: aggInv_def)


lemma animate_length: "length (elems (animate i g)) = length (elems g)"
proof (cases "i < length (elems g)")
  case True
  define g1 where "g1 = g\<lparr> elems := (elems g)[i := (elems g ! i)\<lparr> style :=
      writeDelay (animatesWithTransitions g) (delay i g) (style (elems g ! i)) \<rparr>] \<rparr>"
  define g2 where "g2 = (if uniqueDelay (elems g ! i) = None \<or> uniqueDelay (elems g ! i) = Some 0
                   then updateNextStaggeredDelay g1 else g1)"
  define g3 where "g3 = g2\<lparr> elems := (elems g2)[i := (elems g2 ! i)\<lparr> classAnimated := True \<rparr>] \<rparr>"
  have a: "animate i g = set_isAnimated i (JBool True) g3"
    using True by (simp add: animate_def Let_def g1_def g2_def g3_def)
  have "length (elems g3) = length (elems g2)" by (simp add: g3_def)
  also have "\<dots> = length (elems g1)" by (simp add: g2_def updateNextStaggeredDelay_agg)
  also have "\<dots> = length (elems g)" by (simp add: g1_def)
  finally show ?thesis by (simp add: a set_isAnimated_length)
next
  case False
  then show ?thesis by (simp add: animate_def)
qed

theorem aggregate_consistency_witness:
  "reachable (animate 0 (newElemGroup exampleOptions [exampleElemInit 7] ''card'')) \<and>
   numElemsAnimated (animate 0 (newElemGroup exampleOptions [exampleElemInit 7] ''card'')) = 1 \<and>
   isFinishedAnimating (animate 0 (newElemGroup exampleOptions [exampleElemInit 7] ''card''))"
proof -
  define g where "g = animate 0 (newElemGroup exampleOptions [exampleElemInit 7] ''card'')"
  have l: "0 < length (elems (newElemGroup exampleOptions [exampleElemInit 7] ''card''))"
    by (simp add: newElemGroup_def)
  have r: "reachable g"
    unfolding g_def by (rule by_animate [OF constructed l])
  have len: "length (elems g) = 1"
    unfolding g_def animate_length by (simp add: newElemGroup_def)
  then have ne: "elems g \<noteq> []" by (metis length_0_conv zero_neq_one)
  have c: "numElemsAnimated g = 1"
    unfolding g_def by code_simp
  from aggregate_consistency [OF r] ne have "isFinishedAnimating g \<longleftrightarrow> numElemsAnimated g = int (length (elems g))"
    by blast
  with c len have f: "isFinishedAnimating g" by simp
  show ?thesis using conjI [OF r conjI [OF c f]] unfolding g_def .
qed

text \<open>
  The equivalence as first stated fails for a group without members (the first element
  carries no class, or a text group has no letters): the constructor leaves
  \<open>isFinishedAnimating\<close> false although the count \<open>0\<close> equals the member count \<open>0\<close>,
  and no setter ever runs to recompute it.
\<close>

theorem aggregate_consistency_empty_group_counterexample:
  "reachable (newElemGroup exampleOptions [] ''card'') \<and>
   numElemsAnimated (newElemGroup exampleOptions [] ''card'') =
     int (length (elems (newElemGroup exampleOptions [] ''card''))) \<and>
   \<not> isFinishedAnimating (newElemGroup exampleOptions [] ''card'')"
proof (intro conjI)
  show "reachable (newElemGroup exampleOptions [] ''card'')" by (rule constructed)
  show "numElemsAnimated (newElemGroup exampleOptions [] ''card'') =
     int (length (elems (newElemGroup exampleOptions [] ''card'')))"
    by (simp add: newElemGroup_def)
  show "\<not> isFinishedAnimating (newElemGroup exampleOptions [] ''card'')"
    by (simp add: newElemGroup_def)
qed

text \<open>
  C10. Assigning a boolean \<open>b\<close> to \<open>isVisible\<close> (respectively \<open>isAnimated\<close>) of a member
  stores \<open>b\<close> and changes the group's \<open>numElemsVisible\<close> (respectively
  \<open>numElemsAnimated\<close>) by \<open>+1\<close> exactly when the flag goes from false to true, by
  \<open>-1\<close> exactly when it goes from true to false, and not at all when \<open>b\<close> is the
  current flag. The comparison is between the raw value and the stored boolean: the
  truthy non-boolean \<open>1\<close> assigned to a flag that is already true leaves the flag true
  and still raises the counter, so the bookkeeping holds for genuine booleans only.
\<close>

theorem setter_counter_bookkeeping:
  assumes "i < length (elems g)"
  shows
    "numElemsVisible (set_isVisible i (JBool b) g) =
       numElemsVisible g + (if b = isVisible (elems g ! i) then 0 else if b then 1 else - 1) \<and>
     isVisible (elems (set_isVisible i (JBool b) g) ! i) = b \<and>
     numElemsAnimated (set_isAnimated i (JBool b) g) =
       numElemsAnimated g + (if b = isAnimated (elems g ! i) then 0 else if b then 1 else - 1) \<and>
     isAnimated (elems (set_isAnimated i (JBool b) g) ! i) = b \<and>
     (isVisible (elems g ! i) \<longrightarrow>
        isVisible (elems (set_isVisible i (JNum 1) g) ! i) \<and>
        numElemsVisible (set_isVisible i (JNum 1) g) = numElemsVisible g + 1) \<and>
     (isAnimated (elems g ! i) \<longrightarrow>
        isAnimated (elems (set_isAnimated i (JNum 1) g) ! i) \<and>
        numElemsAnimated (set_isAnimated i (JNum 1) g) = numElemsAnimated g + 1)"
proof (intro conjI impI)
  show "numElemsVisible (set_isVisible i (JBool b) g) =
       numElemsVisible g + (if b = isVisible (elems g ! i) then 0 else if b then 1 else - 1)"
    using assms by (simp add: set_isVisible_def Let_def updateVisibility_def)
  show "isVisible (elems (set_isVisible i (JBool b) g) ! i) = b"
    using assms by (simp add: set_isVisible_def Let_def updateVisibility_def)
  show "numElemsAnimated (set_isAnimated i (JBool b) g) =
       numElemsAnimated g + (if b = isAnimated (elems g ! i) then 0 else if b then 1 else - 1)"
    using assms by (simp add: set_isAnimated_def Let_def updateAnimationStatus_def)
  show "isAnimated (elems (set_isAnimated i (JBool b) g) ! i) = b"
    using assms by (simp add: set_isAnimated_def Let_def updateAnimationStatus_def)
  show "isVisible (elems (set_isVisible i (JNum 1) g) ! i)"
    using assms by (simp add: set_isVisible_def Let_def updateVisibility_def)
  show "numElemsVisible (set_isVisible i (JNum 1) g) = numElemsVisible g + 1"
    using assms by (simp add: set_isVisible_def Let_def updateVisibility_def)
  show "isAnimated (elems (set_isAnimated i (JNum 1) g) ! i)"
    using assms by (simp add: set_isAnimated_def Let_def updateAnimationStatus_def)
  show "numElemsAnimated (set_isAnimated i (JNum 1) g) = numElemsAnimated g + 1"
    using assms by (simp add: set_isAnimated_def Let_def updateAnimationStatus_def)
qed

theorem setter_counter_bookkeeping_witness:
  "0 < length (elems (animate 0 (set_isVisible 0 (JBool True) (newElemGroup exampleOptions [exampleElemInit 7] ''card'')))) \<and>
   isVisible (elems (animate 0 (set_isVisible 0 (JBool True) (newElemGroup exampleOptions [exampleElemInit 7] ''card''))) ! 0) \<and>
   isAnimated (elems (animate 0 (set_isVisible 0 (JBool True) (newElemGroup exampleOptions [exampleElemInit 7] ''card''))) ! 0) \<and>
   numElemsVisible (set_isVisible 0 (JBool False)
      (animate 0 (set_isVisible 0 (JBool True) (newElemGroup exampleOptions [exampleElemInit 7] ''card'')))) = 0 \<and>
   numElemsAnimated (set_isAnimated 0 (JBool False)
      (animate 0 (set_isVisible 0 (JBool True) (newElemGroup exampleOptions [exampleElemInit 7] ''card'')))) = 0 \<and>
   numElemsVisible (set_isVisible 0 (JNum 1)
      (animate 0 (set_isVisible 0 (JBool True) (newElemGroup exampleOptions [exampleElemInit 7] ''card'')))) = 2 \<and>
   numElemsAnimated (set_isAnimated 0 (JNum 1)
      (animate 0 (set_isVisible 0 (JBool True) (newElemGroup exampleOptions [exampleElemInit 7] ''card'')))) = 2"
proof -
  define g where "g = animate 0 (set_isVisible 0 (JBool True) (newElemGroup exampleOptions [exampleElemInit 7] ''card''))"
  have l: "0 < length (elems g)" unfolding g_def by code_simp
  have v: "isVisible (elems g ! 0)" unfolding g_def by code_simp
  have a: "isAnimated (elems g ! 0)" unfolding g_def by code_simp
  have nv: "numElemsVisible g = 1" unfolding g_def by code_simp
  have na: "numElemsAnimated g = 1" unfolding g_def by code_simp
  note t = setter_counter_bookkeeping [OF l, of False]
  from t v nv have 1: "numElemsVisible (set_isVisible 0 (JBool False) g) = 0" by simp
  from t a na have 2: "numElemsAnimated (set_isAnimated 0 (JBool False) g) = 0" by simp
  from t v nv have 3: "numElemsVisible (set_isVisible 0 (JNum 1) g) = 2" by simp
  from t a na have 4: "numElemsAnimated (set_isAnimated 0 (JNum 1) g) = 2" by simp
  show ?thesis using l v a 1 2 3 4 unfolding g_def by (intro conjI)
qed



lemma correctThreshold_original [simp]:
  "originalThreshold (correctThreshold vh elemHeight e) = originalThreshold e"
  by (simp add: correctThreshold_def split: option.splits)




























lemma addListeners_elemGroups [simp]: "elemGroups (addListeners parse g w) = elemGroups w"
  by (simp add: addListeners_def split: option.splits)

lemma readyLoop_groupIds:
  "map groupId (elemGroups (readyLoop parse known i els w)) =
     map groupId (elemGroups w) @ groupIds known i els"
proof (induction els arbitrary: known i w)
  case Nil
  show ?case by simp
next
  case (Cons el els)
  have "map groupId (elemGroups (readyOne parse gid el w)) = map groupId (elemGroups w) @ [gid]"
    for gid
    by (simp add: readyOne_def Let_def reverseElems_def newElemGroup_def)
  with Cons.IH show ?case by simp
qed

text \<open>
  C7 (the code at the failing input). Three plain groups whose first elements carry the
  leading classes \<open>a2\<close>, \<open>a\<close>, \<open>a\<close>: the third repeats the name \<open>a\<close> and receives the
  loop index \<open>2\<close> as suffix, which gives \<open>a2\<close>, the id of the first group. The ids of
  the tracked groups are not unique.
\<close>

theorem groupIds_collide:
  "map groupId (elemGroups (readyElementsForAnimation (\<lambda>_. None)
      [firstElemOf ''a2'', firstElemOf ''a'', firstElemOf ''a''] emptyWorld)) =
     [''a2'', ''a'', ''a2''] \<and>
   \<not> distinct (map groupId (elemGroups (readyElementsForAnimation (\<lambda>_. None)
      [firstElemOf ''a2'', firstElemOf ''a'', firstElemOf ''a''] emptyWorld)))"
  by code_simp

text \<open>
  C8 (the code at the failing input). For the listener object with the keys \<open>run\<close>,
  \<open>iteration\<close> and \<open>end\<close> of a group that uses animations, \<^verbatim>\<open>getEventStyles\<close> returns the
  entry for \<open>animationend\<close> alone: the branches for \<open>run\<close> and \<open>iteration\<close> test the
  still empty local \<^verbatim>\<open>event\<close> instead of the key, so neither \<open>transitionrun\<close> nor
  \<open>animationiteration\<close>, the names the documentation gives, is produced.
\<close>

theorem getEventStyles_drops_run_and_iteration:
  "getEventStyles
     [(''run'', ''opacity: 1''), (''iteration'', ''color: red''), (''end'', ''display: inline'')]
     (newElemGroup exampleOptions [exampleElemInit 7] ''card'') =
     [(''animationend'', ''display: inline'')] \<and>
   documentedEventName False ''run'' = ''transitionrun'' \<and>
   documentedEventName False ''iteration'' = ''animationiteration''"
  by code_simp

lemma fold_preserves:
  assumes "\<And>x w. h (f x w) = h w"
  shows "h (fold f xs w) = h w"
  using assms by (induction xs arbitrary: w) simp_all

lemma setGroup_sched [simp]:
  "updating (setGroup gi g w) = updating w"
  "rafQueue (setGroup gi g w) = rafQueue w"
  "useScroll (setGroup gi g w) = useScroll w"
  "timers (setGroup gi g w) = timers w"
  "windowHeight (setGroup gi g w) = windowHeight w"
  "rects (setGroup gi g w) = rects w"
  "length (elemGroups (setGroup gi g w)) = length (elemGroups w)"
  by (simp_all add: setGroup_def)

lemma readOne_sched [simp]:
  "updating (readOne gi w) = updating w"
  "rafQueue (readOne gi w) = rafQueue w"
  "useScroll (readOne gi w) = useScroll w"
  "timers (readOne gi w) = timers w"
  "length (elemGroups (readOne gi w)) = length (elemGroups w)"
  by (simp_all add: readOne_def)

lemma readAll_sched [simp]:
  "updating (readAll w) = updating w"
  "rafQueue (readAll w) = rafQueue w"
  "useScroll (readAll w) = useScroll w"
  "timers (readAll w) = timers w"
  unfolding readAll_def by (rule fold_preserves, simp)+

lemma delayGroup_sched [simp]:
  "updating (delayGroup gi w) = updating w"
  "rafQueue (delayGroup gi w) = rafQueue w"
  "useScroll (delayGroup gi w) = useScroll w"
  "length (elemGroups (delayGroup gi w)) = length (elemGroups w)"
  by (simp_all add: delayGroup_def Let_def)

lemma updateOne_sched [simp]:
  "updating (updateOne gi w) = updating w"
  "rafQueue (updateOne gi w) = rafQueue w"
  "useScroll (updateOne gi w) = useScroll w"
  "length (elemGroups (updateOne gi w)) = length (elemGroups w)"
  by (simp_all add: updateOne_def Let_def)

lemma updateAll_sched [simp]:
  "updating (updateAll w) = updating w"
  "rafQueue (updateAll w) = rafQueue w"
  "useScroll (updateAll w) = useScroll w"
  unfolding updateAll_def by (rule fold_preserves, simp)+

lemma updateEntry_sched [simp]:
  "updating (updateEntry ge w) = updating w"
  "rafQueue (updateEntry ge w) = rafQueue w"
  "useScroll (updateEntry ge w) = useScroll w"
  "length (elemGroups (updateEntry ge w)) = length (elemGroups w)"
  by (simp_all add: updateEntry_def Let_def)

lemma updateEntries_sched [simp]:
  "updating (updateEntries gs w) = updating w"
  "rafQueue (updateEntries gs w) = rafQueue w"
  "useScroll (updateEntries gs w) = useScroll w"
  unfolding updateEntries_def by (rule fold_preserves, simp)+

lemma runUpdateCb_sched [simp]:
  "updating (runUpdateCb cb w) = updating w"
  "rafQueue (runUpdateCb cb w) = rafQueue w"
  "useScroll (runUpdateCb cb w) = useScroll w"
  by (simp_all add: runUpdateCb_def split: UpdateCb.splits)

lemma timerCallback_sched [simp]:
  "updating (timerCallback t w) = updating w"
  "rafQueue (timerCallback t w) = rafQueue w @ [RafUpdateOne (timerGroup t)]"
  "useScroll (timerCallback t w) = useScroll w"
  by (simp_all add: timerCallback_def Let_def)


lemma correctAll_sched [simp]:
  "updating (correctAll w) = updating w"
  "rafQueue (correctAll w) = rafQueue w"
  "useScroll (correctAll w) = useScroll w"
  by (simp_all add: correctAll_def)

lemma readyLoop_sched [simp]:
  "updating (readyLoop parse known i els w) = updating w"
  "rafQueue (readyLoop parse known i els w) = rafQueue w"
  "useScroll (readyLoop parse known i els w) = useScroll w"
  by (induction els arbitrary: known i w;
      simp add: readyOne_def Let_def addListeners_def split: option.splits)+













lemma set_isAnimated_delaying [simp]:
  "isDelaying (set_isAnimated i v g) = isDelaying g"
  "groupDelay (set_isAnimated i v g) = groupDelay g"
  by (simp_all add: set_isAnimated_def Let_def updateAnimationStatus_def)

lemma set_isVisible_delaying [simp]:
  "isDelaying (set_isVisible i v g) = isDelaying g"
  "groupDelay (set_isVisible i v g) = groupDelay g"
  by (simp_all add: set_isVisible_def Let_def updateVisibility_def)

lemma updateNextStaggeredDelay_delaying [simp]:
  "isDelaying (updateNextStaggeredDelay g) = isDelaying g"
  "groupDelay (updateNextStaggeredDelay g) = groupDelay g"
  by (simp_all add: updateNextStaggeredDelay_def split: option.splits)

lemma animate_delaying [simp]:
  "isDelaying (animate i g) = isDelaying g"
  "groupDelay (animate i g) = groupDelay g"
  by (simp_all add: animate_def Let_def)

lemma deAnimate_delaying [simp]:
  "isDelaying (deAnimate i g) = isDelaying g"
  "groupDelay (deAnimate i g) = groupDelay g"
  by (simp_all add: deAnimate_def Let_def)

lemma updateAnimations_delaying [simp]:
  "isDelaying (updateAnimations vh i g) = isDelaying g"
  "groupDelay (updateAnimations vh i g) = groupDelay g"
  by (simp_all add: updateAnimations_def)

lemma updateAnimationsAll_delaying [simp]:
  "isDelaying (updateAnimationsAll vh g) = isDelaying g"
  "groupDelay (updateAnimationsAll vh g) = groupDelay g"
  unfolding updateAnimationsAll_def by (rule fold_preserves, simp)+

lemma updateMutableProps_delaying [simp]:
  "isDelaying (updateMutableProps g) = isDelaying g"
  by (simp add: updateMutableProps_def Let_def)

lemma calculateVisibility_delaying [simp]:
  "isDelaying (calculateVisibility vh r i g) = isDelaying g"
  "groupDelay (calculateVisibility vh r i g) = groupDelay g"
  by (simp_all add: calculateVisibility_def Let_def)

lemma readOneGroup_delaying [simp]:
  "isDelaying (readOneGroup w g) = isDelaying g"
  "groupDelay (readOneGroup w g) = groupDelay g"
  unfolding readOneGroup_def by (rule fold_preserves, simp)+

















lemma keyOf_simps [simp]:
  "keyOf (readOneGroup w g) = keyOf g"
  "keyOf (g\<lparr> elems := es \<rparr>) = keyOf g"
  by (simp_all add: keyOf_def)

lemma map_keyOf_update:
  assumes "keyOf g' = keyOf (gs ! gi)"
  shows "map keyOf (gs[gi := g']) = map keyOf gs"
proof (cases "gi < length gs")
  case True
  with assms show ?thesis by (simp add: map_update list_update_same_conv)
next
  case False
  then have "gs[gi := g'] = gs" by (simp add: list_update_beyond)
  then show ?thesis by simp
qed

lemma view_setGroup_same:
  assumes "keyOf g' = keyOf (elemGroups w ! gi)"
  shows "view (setGroup gi g' w) = view w"
  using assms by (simp add: view_def setGroup_def map_keyOf_update)

lemma view_readOne [simp]: "view (readOne gj w) = view w"
  by (simp add: readOne_def view_setGroup_same)


lemma view_correctAll [simp]: "view (correctAll w) = view w"
  by (simp add: view_def correctAll_def comp_def)






lemma view_proj [simp]:
  "length (vKeys (view w)) = length (elemGroups w)"
  "vQueue (view w) = rafQueue w"
  "vTimers (view w) = timers w"
  "vNext (view w) = nextTimerId w"
  by (simp_all add: view_def)






lemma view_rects [simp]: "view (w\<lparr> rects := rs \<rparr>) = view w"
  "view (w\<lparr> updating := b \<rparr>) = view w"
  "view (w\<lparr> windowHeight := h \<rparr>) = view w"
  "view (w\<lparr> prevWindowHeight := h \<rparr>) = view w"
  by (simp_all add: view_def)








lemma readyLoop_timers [simp]:
  "timers (readyLoop parse known i els w) = timers w"
  by (induction els arbitrary: known i w)
     (simp_all add: readyOne_def Let_def addListeners_def split: option.splits)









lemma correctThreshold_anim [simp]:
  "isAnimated (correctThreshold vh eh e) = isAnimated e"
  "classAnimated (correctThreshold vh eh e) = classAnimated e"
  "style (correctThreshold vh eh e) = style e"
  by (simp_all add: correctThreshold_def split: option.splits)










end
